theory Spec2Isabelle
  imports
    Main
    "HOL-Library.Sublist"
    "HOL-Library.List_Lexorder"
    "HOL-Library.Char_ord"
begin

section \<open>Daily Brief Agent: the search tool and the chat orchestrator\<close>

text \<open>
  A shallow embedding of \<^verbatim>\<open>app/agent_tools.py\<close> (the search tool) and of the
  \<^verbatim>\<open>chat\<close> handler of \<^verbatim>\<open>app/main.py\<close> (the orchestrator).

  Conventions of the model:
  \<^item> a Python \<^verbatim>\<open>str\<close> is a \<^typ>\<open>string\<close>, its characters read as the code points
    0 to 255; text beyond that range is outside the model;
  \<^item> a \<^verbatim>\<open>datetime\<close> is its proleptic Gregorian ordinal (the value of
    \<^verbatim>\<open>toordinal()\<close>, day 1 being 0001-01-01); the time of day is dropped, since
    the tool formats dates with \<^verbatim>\<open>%Y-%m-%d\<close> only;
  \<^item> an exception is a value: a function that may raise returns an \<open>option\<close> or a sum.
\<close>

subsection \<open>Python string operations\<close>

text \<open>\<^verbatim>\<open>str.isspace\<close> on one character, for the code points below 256.\<close>

definition py_isspace :: "char \<Rightarrow> bool" where
  "py_isspace c =
     (let n = (of_char c :: nat)
      in (9 \<le> n \<and> n \<le> 13) \<or> (28 \<le> n \<and> n \<le> 32) \<or> n = 133 \<or> n = 160)"

definition py_strip :: "string \<Rightarrow> string" where
  "py_strip s = rev (dropWhile py_isspace (rev (dropWhile py_isspace s)))"

text \<open>\<^verbatim>\<open>str.split()\<close> with no argument: the maximal runs of non-whitespace characters.\<close>

fun split_ws :: "string \<Rightarrow> string \<Rightarrow> string list" where
  "split_ws cur [] = (if cur = [] then [] else [cur])"
| "split_ws cur (c # cs) =
     (if py_isspace c then (if cur = [] then split_ws [] cs else cur # split_ws [] cs)
      else split_ws (cur @ [c]) cs)"

definition py_split :: "string \<Rightarrow> string list" where
  "py_split s = split_ws [] s"

text \<open>\<^verbatim>\<open>str.lower\<close>: the ASCII capitals and the capitals of Latin-1 (0xC0 to 0xDE, without
  the multiplication sign 0xD7) move up by 32.\<close>

definition py_lower_char :: "char \<Rightarrow> char" where
  "py_lower_char c =
     (let n = (of_char c :: nat)
      in if (65 \<le> n \<and> n \<le> 90) \<or> (192 \<le> n \<and> n \<le> 222 \<and> n \<noteq> 215)
         then char_of (n + 32) else c)"

definition py_lower :: "string \<Rightarrow> string" where
  "py_lower s = map py_lower_char s"

definition removeprefix :: "string \<Rightarrow> string \<Rightarrow> string" where
  "removeprefix p s = (if prefix p s then drop (length p) s else s)"

definition removesuffix :: "string \<Rightarrow> string \<Rightarrow> string" where
  "removesuffix p s = (if suffix p s \<and> p \<noteq> [] then take (length s - length p) s else s)"

text \<open>Decimal digits.\<close>

definition is_digit :: "char \<Rightarrow> bool" where
  "is_digit c = (48 \<le> (of_char c :: nat) \<and> (of_char c :: nat) \<le> 57)"

definition digit_val :: "char \<Rightarrow> nat" where
  "digit_val c = of_char c - 48"

definition digit_char :: "nat \<Rightarrow> char" where
  "digit_char d = ''0123456789'' ! d"

subsection \<open>Dates\<close>

text \<open>
  The calendar arithmetic of Python's \<^verbatim>\<open>datetime\<close> module (\<^verbatim>\<open>_is_leap\<close>,
  \<^verbatim>\<open>_days_before_year\<close>, \<^verbatim>\<open>_days_in_month\<close>, \<^verbatim>\<open>_days_before_month\<close>,
  \<^verbatim>\<open>_ymd2ord\<close>, \<^verbatim>\<open>_ord2ymd\<close>), which the tool uses through \<^verbatim>\<open>strptime\<close>,
  \<^verbatim>\<open>strftime\<close> and the subtraction of a \<^verbatim>\<open>timedelta\<close>.
\<close>

type_synonym date = nat

definition is_leap :: "nat \<Rightarrow> bool" where
  "is_leap year = (year mod 4 = 0 \<and> (year mod 100 \<noteq> 0 \<or> year mod 400 = 0))"

definition days_before_year :: "nat \<Rightarrow> nat" where
  "days_before_year year =
     (let y = year - 1 in y * 365 + y div 4 - y div 100 + y div 400)"

definition DAYS_IN_MONTH :: "nat list" where
  "DAYS_IN_MONTH = [0, 31, 28, 31, 30, 31, 30, 31, 31, 30, 31, 30, 31]"

definition DAYS_BEFORE_MONTH :: "nat list" where
  "DAYS_BEFORE_MONTH = [0, 0, 31, 59, 90, 120, 151, 181, 212, 243, 273, 304, 334]"

definition days_in_month :: "nat \<Rightarrow> nat \<Rightarrow> nat" where
  "days_in_month year month =
     (if month = 2 \<and> is_leap year then 29 else DAYS_IN_MONTH ! month)"

definition days_before_month :: "nat \<Rightarrow> nat \<Rightarrow> nat" where
  "days_before_month year month =
     DAYS_BEFORE_MONTH ! month + (if month > 2 \<and> is_leap year then 1 else 0)"

definition ymd2ord :: "nat \<Rightarrow> nat \<Rightarrow> nat \<Rightarrow> date" where
  "ymd2ord year month day = days_before_year year + days_before_month year month + day"

definition ord2ymd :: "date \<Rightarrow> nat \<times> nat \<times> nat" where
  "ord2ymd ordinal =
     (let n = ordinal - 1;
          n400 = n div 146097; n = n mod 146097;
          year = n400 * 400 + 1;
          n100 = n div 36524; n = n mod 36524;
          n4 = n div 1461; n = n mod 1461;
          n1 = n div 365; n = n mod 365;
          year = year + n100 * 100 + n4 * 4 + n1
      in if n1 = 4 \<or> n100 = 4 then (year - 1, 12, 31)
         else
           let leapyear = (n1 = 3 \<and> (n4 \<noteq> 24 \<or> n100 = 3));
               month = (n + 50) div 32;
               preceding = DAYS_BEFORE_MONTH ! month + (if month > 2 \<and> leapyear then 1 else 0)
           in if preceding > n
              then
                let month = month - 1;
                    preceding = preceding
                      - (DAYS_IN_MONTH ! month + (if month = 2 \<and> leapyear then 1 else 0))
                in (year, month, n - preceding + 1)
              else (year, month, n - preceding + 1))"

text \<open>Zero-padded decimal of a given width, as \<^verbatim>\<open>%Y\<close>, \<^verbatim>\<open>%m\<close> and \<^verbatim>\<open>%d\<close> print.\<close>

fun pad_decimal :: "nat \<Rightarrow> nat \<Rightarrow> string" where
  "pad_decimal 0 n = []"
| "pad_decimal (Suc w) n = pad_decimal w (n div 10) @ [digit_char (n mod 10)]"

text \<open>\<^verbatim>\<open>strftime("%Y-%m-%d")\<close>. Years have four digits (1 to 9999).\<close>

definition strftime :: "date \<Rightarrow> string" where
  "strftime d =
     (case ord2ymd d of (y, m, dd) \<Rightarrow>
        pad_decimal 4 y @ ''-'' @ pad_decimal 2 m @ ''-'' @ pad_decimal 2 dd)"

text \<open>
  \<^verbatim>\<open>datetime.strptime(s, "%Y-%m-%d")\<close>. The format compiles to the regular
  expression \<^verbatim>\<open>(\d\d\d\d)-(1[0-2]|0[1-9]|[1-9])-(3[0-1]|[1-2]\d|0[1-9]|[1-9]| [1-9])\<close>,
  matched at the start of the string; text left over after the match, a year 0 or a
  day the month does not have raise \<^verbatim>\<open>ValueError\<close>, here \<open>None\<close>.
\<close>

definition match_month :: "string \<Rightarrow> (nat \<times> string) option" where
  "match_month s =
     (case s of
        c1 # c2 # c3 # rest \<Rightarrow>
          if c1 = CHR ''1'' \<and> c2 \<in> set ''012'' \<and> c3 = CHR ''-''
            then Some (10 + digit_val c2, rest)
          else if c1 = CHR ''0'' \<and> is_digit c2 \<and> c2 \<noteq> CHR ''0'' \<and> c3 = CHR ''-''
            then Some (digit_val c2, rest)
          else if is_digit c1 \<and> c1 \<noteq> CHR ''0'' \<and> c2 = CHR ''-''
            then Some (digit_val c1, c3 # rest)
          else None
      | [c1, c2] \<Rightarrow>
          if is_digit c1 \<and> c1 \<noteq> CHR ''0'' \<and> c2 = CHR ''-''
            then Some (digit_val c1, []) else None
      | _ \<Rightarrow> None)"

definition match_day :: "string \<Rightarrow> (nat \<times> string) option" where
  "match_day s =
     (case s of
        [] \<Rightarrow> None
      | [c1] \<Rightarrow> if is_digit c1 \<and> c1 \<noteq> CHR ''0'' then Some (digit_val c1, []) else None
      | c1 # c2 # rest \<Rightarrow>
          if c1 = CHR ''3'' \<and> c2 \<in> set ''01'' then Some (30 + digit_val c2, rest)
          else if c1 \<in> set ''12'' \<and> is_digit c2 then Some (10 * digit_val c1 + digit_val c2, rest)
          else if c1 = CHR ''0'' \<and> is_digit c2 \<and> c2 \<noteq> CHR ''0'' then Some (digit_val c2, rest)
          else if is_digit c1 \<and> c1 \<noteq> CHR ''0'' then Some (digit_val c1, c2 # rest)
          else if c1 = CHR '' '' \<and> is_digit c2 \<and> c2 \<noteq> CHR ''0'' then Some (digit_val c2, rest)
          else None)"

definition strptime :: "string \<Rightarrow> date option" where
  "strptime s =
     (case s of
        y1 # y2 # y3 # y4 # dash # rest \<Rightarrow>
          if is_digit y1 \<and> is_digit y2 \<and> is_digit y3 \<and> is_digit y4 \<and> dash = CHR ''-''
          then
            (case match_month rest of
               None \<Rightarrow> None
             | Some (month, rest') \<Rightarrow>
                 (case match_day rest' of
                    None \<Rightarrow> None
                  | Some (day, rest'') \<Rightarrow>
                      let year = 1000 * digit_val y1 + 100 * digit_val y2
                                 + 10 * digit_val y3 + digit_val y4
                      in if rest'' = [] \<and> 1 \<le> year \<and> day \<le> days_in_month year month
                         then Some (ymd2ord year month day) else None))
          else None
      | _ \<Rightarrow> None)"

text \<open>
  \<^verbatim>\<open>today - timedelta(days=k)\<close>: the ordinal moves back by \<open>k\<close>; below day 1 Python
  raises \<^verbatim>\<open>OverflowError\<close>, here \<open>None\<close>.
\<close>

definition minus_days :: "date \<Rightarrow> nat \<Rightarrow> date option" where
  "minus_days today k = (if k < today then Some (today - k) else None)"

subsection \<open>The search tool: date-range resolution\<close>

text \<open>
  Lines 67 to 78 of \<^verbatim>\<open>search_federal_executive_orders\<close>: the pair
  \<open>(start_date_dt, end_date_dt)\<close> for a \<^verbatim>\<open>date_range_str\<close>. \<open>None\<close> is an exception
  other than the \<^verbatim>\<open>ValueError\<close> the code catches itself.
\<close>

definition resolve_date_range :: "date \<Rightarrow> string \<Rightarrow> (date \<times> date) option" where
  "resolve_date_range today date_range_str =
     (if date_range_str = ''today'' then Some (today, today)
      else if date_range_str = ''yesterday'' then
        (case minus_days today 1 of None \<Rightarrow> None | Some d \<Rightarrow> Some (d, d))
      else if date_range_str = ''last_7_days'' then
        (case minus_days today 6 of None \<Rightarrow> None | Some d \<Rightarrow> Some (d, today))
      else if date_range_str = ''last_30_days'' then
        (case minus_days today 29 of None \<Rightarrow> None | Some d \<Rightarrow> Some (d, today))
      else if date_range_str = ''last_year'' then
        (case minus_days today 365 of None \<Rightarrow> None | Some d \<Rightarrow> Some (d, today))
      else
        (case strptime date_range_str of
           Some parsed_date \<Rightarrow> Some (parsed_date, parsed_date)
         | None \<Rightarrow>
             (case minus_days today 6 of None \<Rightarrow> None | Some d \<Rightarrow> Some (d, today))))"

subsection \<open>JSON values\<close>

text \<open>
  The values \<^verbatim>\<open>json.loads\<close> builds and \<^verbatim>\<open>json.dumps\<close> prints: \<^verbatim>\<open>None\<close>,
  \<^verbatim>\<open>bool\<close>, \<^verbatim>\<open>int\<close>, \<^verbatim>\<open>str\<close>, \<^verbatim>\<open>list\<close> and \<^verbatim>\<open>dict\<close> with string keys
  (in insertion order). Floating-point numbers are outside the model: a number with a
  fraction or an exponent does not parse here.
\<close>

datatype json =
    JNull
  | JBool bool
  | JInt int
  | JStr string
  | JList "json list"
  | JDict "(string \<times> json) list"

text \<open>Python's truth value of an object (\<^verbatim>\<open>if x\<close>, \<^verbatim>\<open>not x\<close>).\<close>

fun py_truthy :: "json \<Rightarrow> bool" where
  "py_truthy JNull = False"
| "py_truthy (JBool b) = b"
| "py_truthy (JInt i) = (i \<noteq> 0)"
| "py_truthy (JStr s) = (s \<noteq> [])"
| "py_truthy (JList xs) = (xs \<noteq> [])"
| "py_truthy (JDict kvs) = (kvs \<noteq> [])"

text \<open>\<^verbatim>\<open>d.get(k)\<close> and \<^verbatim>\<open>d[k] = v\<close>; \<open>None\<close> is the absent key.\<close>

definition dict_get :: "(string \<times> json) list \<Rightarrow> string \<Rightarrow> json option" where
  "dict_get d k = map_of d k"

fun dict_set :: "(string \<times> json) list \<Rightarrow> string \<Rightarrow> json \<Rightarrow> (string \<times> json) list" where
  "dict_set [] k v = [(k, v)]"
| "dict_set ((k', v') # d) k v = (if k' = k then (k, v) # d else (k', v') # dict_set d k v)"

definition dict_of_pairs :: "(string \<times> json) list \<Rightarrow> (string \<times> json) list" where
  "dict_of_pairs pairs = foldl (\<lambda>d (k, v). dict_set d k v) [] pairs"

subsection \<open>\<^verbatim>\<open>json.dumps\<close>\<close>

definition hex_digit :: "nat \<Rightarrow> char" where
  "hex_digit n = ''0123456789abcdef'' ! n"

text \<open>\<^verbatim>\<open>ensure_ascii\<close> escaping of one character (\<^verbatim>\<open>py_encode_basestring_ascii\<close>).\<close>

definition escape_char :: "char \<Rightarrow> string" where
  "escape_char c =
     (let n = (of_char c :: nat)
      in if n = 34 then [CHR 0x5C, CHR 0x22]
         else if n = 92 then [CHR 0x5C, CHR 0x5C]
         else if n = 10 then [CHR 0x5C, CHR ''n'']
         else if n = 13 then [CHR 0x5C, CHR ''r'']
         else if n = 9 then [CHR 0x5C, CHR ''t'']
         else if n = 8 then [CHR 0x5C, CHR ''b'']
         else if n = 12 then [CHR 0x5C, CHR ''f'']
         else if n < 32 \<or> 126 < n
           then [CHR 0x5C, CHR ''u'', CHR ''0'', CHR ''0'', hex_digit (n div 16), hex_digit (n mod 16)]
         else [c])"

definition encode_string :: "string \<Rightarrow> string" where
  "encode_string s = CHR 0x22 # concat (map escape_char s) @ [CHR 0x22]"

fun dec_nat :: "nat \<Rightarrow> string" where
  "dec_nat n = (if n < 10 then [digit_char n] else dec_nat (n div 10) @ [digit_char (n mod 10)])"

declare dec_nat.simps [simp del]

definition dec_int :: "int \<Rightarrow> string" where
  "dec_int i = (if i < 0 then CHR ''-'' # dec_nat (nat (- i)) else dec_nat (nat i))"

text \<open>
  With \<^verbatim>\<open>indent=k\<close> every item starts on a line of its own, indented by \<open>k\<close> spaces
  per nesting level, and the item separator is a comma; with no indent the item
  separator is a comma and a space. The key separator is a colon and a space.
\<close>

definition newline_indent :: "nat option \<Rightarrow> nat \<Rightarrow> string" where
  "newline_indent indent level =
     (case indent of None \<Rightarrow> [] | Some k \<Rightarrow> CHR 0x0A # replicate (k * level) CHR '' '')"

definition item_separator :: "nat option \<Rightarrow> nat \<Rightarrow> string" where
  "item_separator indent level =
     (case indent of None \<Rightarrow> '', '' | Some k \<Rightarrow> CHR '','' # newline_indent indent level)"

fun dumps_value :: "nat option \<Rightarrow> nat \<Rightarrow> json \<Rightarrow> string"
  and dumps_items :: "nat option \<Rightarrow> nat \<Rightarrow> json list \<Rightarrow> string"
  and dumps_members :: "nat option \<Rightarrow> nat \<Rightarrow> (string \<times> json) list \<Rightarrow> string"
where
  "dumps_value indent level JNull = ''null''"
| "dumps_value indent level (JBool b) = (if b then ''true'' else ''false'')"
| "dumps_value indent level (JInt i) = dec_int i"
| "dumps_value indent level (JStr s) = encode_string s"
| "dumps_value indent level (JList []) = ''[]''"
| "dumps_value indent level (JList (x # xs)) =
     ''['' @ newline_indent indent (level + 1) @ dumps_items indent (level + 1) (x # xs)
       @ newline_indent indent level @ '']''"
| "dumps_value indent level (JDict []) = ''{}''"
| "dumps_value indent level (JDict (kv # kvs)) =
     ''{'' @ newline_indent indent (level + 1) @ dumps_members indent (level + 1) (kv # kvs)
       @ newline_indent indent level @ ''}''"
| "dumps_items indent level [] = []"
| "dumps_items indent level [x] = dumps_value indent level x"
| "dumps_items indent level (x # y # ys) =
     dumps_value indent level x @ item_separator indent level
       @ dumps_items indent level (y # ys)"
| "dumps_members indent level [] = []"
| "dumps_members indent level [(k, v)] = encode_string k @ '': '' @ dumps_value indent level v"
| "dumps_members indent level ((k, v) # kv # kvs) =
     encode_string k @ '': '' @ dumps_value indent level v @ item_separator indent level
       @ dumps_members indent level (kv # kvs)"

definition json_dumps :: "nat option \<Rightarrow> json \<Rightarrow> string" where
  "json_dumps indent obj = dumps_value indent 0 obj"

subsection \<open>\<^verbatim>\<open>json.loads\<close>\<close>

text \<open>
  The decoder in its default, strict mode. \<open>None\<close> is \<^verbatim>\<open>JSONDecodeError\<close>. An escape
  \<^verbatim>\<open>\uXXXX\<close> of a code point above 255 is outside the model's strings and does not
  parse here. The recursion of the decoder is bounded by fuel, the length of the text.
\<close>

definition is_json_ws :: "char \<Rightarrow> bool" where
  "is_json_ws c = (c = CHR '' '' \<or> c = CHR 0x09 \<or> c = CHR 0x0A \<or> c = CHR 0x0D)"

definition skip_ws :: "string \<Rightarrow> string" where
  "skip_ws s = dropWhile is_json_ws s"

definition hex_val :: "char \<Rightarrow> nat option" where
  "hex_val c =
     (let n = (of_char c :: nat)
      in if 48 \<le> n \<and> n \<le> 57 then Some (n - 48)
         else if 97 \<le> n \<and> n \<le> 102 then Some (n - 87)
         else if 65 \<le> n \<and> n \<le> 70 then Some (n - 55)
         else None)"

definition unescape :: "char \<Rightarrow> char option" where
  "unescape e =
     (if e = CHR 0x22 then Some (CHR 0x22)
      else if e = CHR 0x5C then Some (CHR 0x5C)
      else if e = CHR ''/'' then Some (CHR ''/'')
      else if e = CHR ''b'' then Some (CHR 0x08)
      else if e = CHR ''f'' then Some (CHR 0x0C)
      else if e = CHR ''n'' then Some (CHR 0x0A)
      else if e = CHR ''r'' then Some (CHR 0x0D)
      else if e = CHR ''t'' then Some (CHR 0x09)
      else None)"

text \<open>\<^verbatim>\<open>scanstring\<close>: the text after an opening quote, up to the closing one.\<close>

function scanstring :: "string \<Rightarrow> (string \<times> string) option" where
  "scanstring [] = None"
| "scanstring (c # cs) =
     (if c = CHR 0x22 then Some ([], cs)
      else if c = CHR 0x5C then
        (case cs of
           [] \<Rightarrow> None
         | e # cs' \<Rightarrow>
             if e = CHR ''u'' then
               (case cs' of
                  h1 # h2 # h3 # h4 # cs'' \<Rightarrow>
                    (case (hex_val h1, hex_val h2, hex_val h3, hex_val h4) of
                       (Some a, Some b, Some hi, Some lo) \<Rightarrow>
                         if a = 0 \<and> b = 0 then
                           (case scanstring cs'' of
                              None \<Rightarrow> None
                            | Some (str, rest) \<Rightarrow> Some (char_of (16 * hi + lo) # str, rest))
                         else None
                     | _ \<Rightarrow> None)
                | _ \<Rightarrow> None)
             else
               (case unescape e of
                  None \<Rightarrow> None
                | Some ch \<Rightarrow>
                    (case scanstring cs' of
                       None \<Rightarrow> None
                     | Some (str, rest) \<Rightarrow> Some (ch # str, rest))))
      else if (of_char c :: nat) < 32 then None
      else
        (case scanstring cs of
           None \<Rightarrow> None
         | Some (str, rest) \<Rightarrow> Some (c # str, rest)))"
  by pat_completeness auto
termination
  by (relation "measure length") auto

text \<open>An integer literal: \<^verbatim>\<open>-?(0|[1-9]\d*)\<close>.\<close>

definition scan_number :: "string \<Rightarrow> (int \<times> string) option" where
  "scan_number s =
     (let neg = (s \<noteq> [] \<and> hd s = CHR ''-'');
          body = (if neg then tl s else s)
      in case body of
           [] \<Rightarrow> None
         | d # ds \<Rightarrow>
             if d = CHR ''0'' then Some (0, ds)
             else if is_digit d then
               let n = int (foldl (\<lambda>a c. 10 * a + digit_val c) 0 (takeWhile is_digit body))
               in Some (if neg then - n else n, dropWhile is_digit body)
             else None)"

fun parse_value :: "nat \<Rightarrow> string \<Rightarrow> (json \<times> string) option"
  and parse_items :: "nat \<Rightarrow> string \<Rightarrow> (json list \<times> string) option"
  and parse_members :: "nat \<Rightarrow> string \<Rightarrow> ((string \<times> json) list \<times> string) option"
where
  "parse_value 0 s = None"
| "parse_value (Suc n) s =
     (case s of
        [] \<Rightarrow> None
      | c # cs \<Rightarrow>
          if c = CHR 0x22 then
            (case scanstring cs of None \<Rightarrow> None | Some (str, rest) \<Rightarrow> Some (JStr str, rest))
          else if c = CHR ''{'' then
            (case skip_ws cs of
               [] \<Rightarrow> None
             | c1 # r1 \<Rightarrow>
                 if c1 = CHR ''}'' then Some (JDict [], r1)
                 else
                   (case parse_members n (c1 # r1) of
                      None \<Rightarrow> None
                    | Some (pairs, rest) \<Rightarrow> Some (JDict (dict_of_pairs pairs), rest)))
          else if c = CHR ''['' then
            (case skip_ws cs of
               [] \<Rightarrow> None
             | c1 # r1 \<Rightarrow>
                 if c1 = CHR '']'' then Some (JList [], r1)
                 else
                   (case parse_items n (c1 # r1) of
                      None \<Rightarrow> None
                    | Some (xs, rest) \<Rightarrow> Some (JList xs, rest)))
          else if prefix ''null'' s then Some (JNull, drop 4 s)
          else if prefix ''true'' s then Some (JBool True, drop 4 s)
          else if prefix ''false'' s then Some (JBool False, drop 5 s)
          else
            (case scan_number s of None \<Rightarrow> None | Some (i, rest) \<Rightarrow> Some (JInt i, rest)))"
| "parse_items 0 s = None"
| "parse_items (Suc n) s =
     (case parse_value n s of
        None \<Rightarrow> None
      | Some (x, rest) \<Rightarrow>
          (case skip_ws rest of
             [] \<Rightarrow> None
           | c # r \<Rightarrow>
               if c = CHR '']'' then Some ([x], r)
               else if c = CHR '','' then
                 (case parse_items n (skip_ws r) of
                    None \<Rightarrow> None
                  | Some (xs, rest') \<Rightarrow> Some (x # xs, rest'))
               else None))"
| "parse_members 0 s = None"
| "parse_members (Suc n) s =
     (case s of
        [] \<Rightarrow> None
      | q # s0 \<Rightarrow>
          if q \<noteq> CHR 0x22 then None
          else
            (case scanstring s0 of
               None \<Rightarrow> None
             | Some (key, r0) \<Rightarrow>
                 (case skip_ws r0 of
                    [] \<Rightarrow> None
                  | colon # r1 \<Rightarrow>
                      if colon \<noteq> CHR '':'' then None
                      else
                        (case parse_value n (skip_ws r1) of
                           None \<Rightarrow> None
                         | Some (v, r2) \<Rightarrow>
                             (case skip_ws r2 of
                                [] \<Rightarrow> None
                              | c # r3 \<Rightarrow>
                                  if c = CHR ''}'' then Some ([(key, v)], r3)
                                  else if c = CHR '','' then
                                    (case parse_members n (skip_ws r3) of
                                       None \<Rightarrow> None
                                     | Some (ps, rest) \<Rightarrow> Some ((key, v) # ps, rest))
                                  else None)))))"

definition json_loads :: "string \<Rightarrow> json option" where
  "json_loads s =
     (case parse_value (length s) (skip_ws s) of
        None \<Rightarrow> None
      | Some (obj, rest) \<Rightarrow> if skip_ws rest = [] then Some obj else None)"

subsection \<open>The document store\<close>

text \<open>
  A row of the table \<^verbatim>\<open>federal_documents\<close> (\<^verbatim>\<open>db_setup.py\<close>); every column has type
  \<^verbatim>\<open>TEXT\<close>, and only \<^verbatim>\<open>abstract\<close> may be \<^verbatim>\<open>NULL\<close>. The column
  \<^verbatim>\<open>retrieval_date\<close> is never read by the tool and is left out.
\<close>

record document_row =
  document_number :: string
  document_type :: string
  title :: string
  publication_date :: string
  abstract :: "string option"
  html_url :: string

text \<open>
  What the tool meets when it opens \<^verbatim>\<open>DATABASE_NAME\<close>: \<^verbatim>\<open>sqlite3.connect\<close> fails, or
  the query fails (both raise \<^verbatim>\<open>sqlite3.Error\<close>), or the table holds some rows.
\<close>

datatype database = ConnectError | QueryError | Table "document_row list"

text \<open>SQLite's \<^verbatim>\<open>LOWER\<close> folds the ASCII letters only.\<close>

definition sqlite_lower_char :: "char \<Rightarrow> char" where
  "sqlite_lower_char c =
     (let n = (of_char c :: nat) in if 65 \<le> n \<and> n \<le> 90 then char_of (n + 32) else c)"

definition sqlite_lower :: "string \<Rightarrow> string" where
  "sqlite_lower s = map sqlite_lower_char s"

text \<open>
  SQLite's \<^verbatim>\<open>text LIKE pattern\<close> with no escape character: \<^verbatim>\<open>%\<close> stands for any
  run of characters, \<^verbatim>\<open>_\<close> for any one character, and every other character stands
  for itself up to the case of ASCII letters.
\<close>

fun like_match :: "string \<Rightarrow> string \<Rightarrow> bool" where
  "like_match [] s = (s = [])"
| "like_match (p # ps) [] = (p = CHR ''%'' \<and> like_match ps [])"
| "like_match (p # ps) (c # cs) =
     (if p = CHR ''%'' then like_match ps (c # cs) \<or> like_match (p # ps) cs
      else (p = CHR ''_'' \<or> sqlite_lower_char p = sqlite_lower_char c) \<and> like_match ps cs)"

subsection \<open>The search tool\<close>

text \<open>
  Lines 90 to 97: the keyword condition of the query. It holds of a row when for some
  keyword \<^verbatim>\<open>LOWER(title) LIKE '%kw%' OR LOWER(abstract) LIKE '%kw%'\<close> is true; with
  a \<^verbatim>\<open>NULL\<close> abstract the second comparison is not true.
\<close>

definition processed_keywords :: "string \<Rightarrow> string list" where
  "processed_keywords query_keywords = py_split (py_lower (py_strip query_keywords))"

definition keyword_condition :: "string \<Rightarrow> document_row \<Rightarrow> bool" where
  "keyword_condition kw row =
     (like_match (''%'' @ kw @ ''%'') (sqlite_lower (title row)) \<or>
      (case abstract row of
         None \<Rightarrow> False
       | Some a \<Rightarrow> like_match (''%'' @ kw @ ''%'') (sqlite_lower a)))"

definition keyword_filter :: "string list \<Rightarrow> document_row \<Rightarrow> bool" where
  "keyword_filter kws row = (\<exists>kw \<in> set kws. keyword_condition kw row)"

text \<open>\<^verbatim>\<open>SUBSTR(publication_date, 1, 10) BETWEEN ? AND ?\<close>, comparing text byte by byte.\<close>

definition date_filter :: "string \<Rightarrow> string \<Rightarrow> document_row \<Rightarrow> bool" where
  "date_filter start_date_str end_date_str row =
     (start_date_str \<le> take 10 (publication_date row) \<and>
      take 10 (publication_date row) \<le> end_date_str)"

text \<open>
  \<^verbatim>\<open>ORDER BY publication_date DESC\<close>. SQL leaves the order of rows with equal dates
  open; the model keeps them in table order.
\<close>

fun insert_desc :: "document_row \<Rightarrow> document_row list \<Rightarrow> document_row list" where
  "insert_desc r [] = [r]"
| "insert_desc r (x # xs) =
     (if publication_date r \<le> publication_date x then x # insert_desc r xs else r # x # xs)"

definition order_by_publication_date_desc :: "document_row list \<Rightarrow> document_row list" where
  "order_by_publication_date_desc rows = foldl (\<lambda>sorted r. insert_desc r sorted) [] rows"

text \<open>
  Lines 83 to 97: the \<^verbatim>\<open>WHERE\<close> clause of the query. \<open>keywords\<close> is \<open>None\<close> when
  the keyword condition is not part of it.
\<close>

definition where_clause ::
  "string \<Rightarrow> string \<Rightarrow> string list option \<Rightarrow> document_row \<Rightarrow> bool" where
  "where_clause start_date_str end_date_str keywords row =
     (document_type row = ''Presidential Document''
      \<and> date_filter start_date_str end_date_str row
      \<and> (case keywords of None \<Rightarrow> True | Some kws \<Rightarrow> keyword_filter kws row))"

text \<open>Lines 99 to 108: the query with its order and limit, and \<^verbatim>\<open>fetchall\<close>.\<close>

definition fetch_documents ::
  "document_row list \<Rightarrow> string \<Rightarrow> string \<Rightarrow> string list option \<Rightarrow> document_row list" where
  "fetch_documents rows start_date_str end_date_str keywords =
     take 10 (order_by_publication_date_desc
       (filter (where_clause start_date_str end_date_str keywords) rows))"

text \<open>
  Lines 110 to 115: \<^verbatim>\<open>dict(row_raw)\<close> with the abstract replaced by a placeholder when
  it is \<^verbatim>\<open>NULL\<close> or empty, and the publication date cut at its first space.
\<close>

definition row_dict :: "document_row \<Rightarrow> json" where
  "row_dict row =
     JDict
       [(''document_number'', JStr (document_number row)),
        (''title'', JStr (title row)),
        (''publication_date'', JStr (takeWhile (\<lambda>c. c \<noteq> CHR '' '') (publication_date row))),
        (''abstract'',
           JStr (case abstract row of
                   None \<Rightarrow> ''No abstract available.''
                 | Some a \<Rightarrow> if a = [] then ''No abstract available.'' else a)),
        (''html_url'', JStr (html_url row))]"

text \<open>
  Lines 61 to 124, the body of the \<^verbatim>\<open>try\<close>: the documents found, or the message of
  the \<^verbatim>\<open>except\<close> clause that caught an exception. The arguments are the values bound
  to the parameters, whatever their type: a \<^verbatim>\<open>date_range_str\<close> that is not a string
  makes \<^verbatim>\<open>strptime\<close> raise \<^verbatim>\<open>TypeError\<close>, and a true \<^verbatim>\<open>query_keywords\<close> that is
  not a string has no \<^verbatim>\<open>strip\<close>. \<open>keyword_argument\<close> is line 90 to 92: \<open>None\<close> for
  that exception, \<open>Some None\<close> for no keyword condition, else the keywords.
\<close>

definition keyword_argument :: "json \<Rightarrow> string list option option" where
  "keyword_argument query_keywords =
     (if \<not> py_truthy query_keywords then Some None
      else case query_keywords of
             JStr s \<Rightarrow> if py_strip s \<noteq> [] then Some (Some (processed_keywords s)) else Some None
           | _ \<Rightarrow> None)"

definition search_documents :: "database \<Rightarrow> date \<Rightarrow> json \<Rightarrow> json \<Rightarrow> string + json list" where
  "search_documents db today query_keywords date_range_str =
     (if db = ConnectError then Inl ''A database error occurred.''
      else
        case (case date_range_str of JStr s \<Rightarrow> resolve_date_range today s | _ \<Rightarrow> None) of
          None \<Rightarrow> Inl ''An unexpected error occurred in the tool.''
        | Some (start_date_dt, end_date_dt) \<Rightarrow>
            (case keyword_argument query_keywords of
               None \<Rightarrow> Inl ''An unexpected error occurred in the tool.''
             | Some keywords \<Rightarrow>
                 (case db of
                    Table rows \<Rightarrow>
                      Inr (map row_dict
                             (fetch_documents rows (strftime start_date_dt) (strftime end_date_dt)
                                keywords))
                  | _ \<Rightarrow> Inl ''A database error occurred.'')))"

text \<open>The \<^verbatim>\<open>publication_date\<close> of a document of the result.\<close>

definition result_date :: "json \<Rightarrow> string" where
  "result_date doc =
     (case doc of
        JDict d \<Rightarrow> (case dict_get d ''publication_date'' of Some (JStr s) \<Rightarrow> s | _ \<Rightarrow> [])
      | _ \<Rightarrow> [])"

text \<open>
  A stored publication date whose date part has ten characters: the date alone, or the
  date, a space and a time of day.
\<close>

definition date_then_time :: "string \<Rightarrow> bool" where
  "date_then_time stored = (takeWhile (\<lambda>c. c \<noteq> CHR '' '') stored = take 10 stored)"


definition search_federal_executive_orders :: "database \<Rightarrow> date \<Rightarrow> json \<Rightarrow> json \<Rightarrow> string" where
  "search_federal_executive_orders db today query_keywords date_range_str =
     (case search_documents db today query_keywords date_range_str of
        Inl message \<Rightarrow> json_dumps None (JDict [(''error'', JStr message)])
      | Inr documents \<Rightarrow>
          if documents = [] then
            json_dumps None
              (JDict [(''message'',
                 JStr ''No relevant executive orders found matching your criteria in the database.'')])
          else json_dumps (Some 2) (JList documents))"

subsection \<open>The orchestrator: data\<close>

text \<open>An entry of \<^verbatim>\<open>chat_history\<close> and of the prompt: \<^verbatim>\<open>{"role": ..., "content": ...}\<close>.\<close>

record chat_message =
  role :: string
  content :: string

text \<open>
  A proposed tool call. An entry of \<^verbatim>\<open>tool_calls\<close> that is not a mapping or has no
  \<^verbatim>\<open>function\<close> key is \<open>Malformed\<close>; otherwise it carries its \<^verbatim>\<open>id\<close> (if any) and the
  mapping under \<^verbatim>\<open>function\<close>, whose \<^verbatim>\<open>name\<close> is a string when present and whose
  \<^verbatim>\<open>arguments\<close> are any JSON value when present.
\<close>

record function_data =
  fn_name :: "string option"
  fn_arguments :: "json option"

datatype tool_call = Malformed | ToolCall "string option" function_data

text \<open>
  The \<^verbatim>\<open>message\<close> of the Model Backend's response (\<^verbatim>\<open>raw_assistant_message_dict\<close>);
  each key may be absent.
\<close>

record assistant_message =
  msg_role :: "string option"
  msg_content :: "string option"
  msg_tool_calls :: "tool_call list option"

text \<open>A tool schema offered to the model; only its function name is ever read.\<close>

record tool_schema =
  schema_name :: string
  schema_description :: string

definition SEARCH_FEDERAL_EXECUTIVE_ORDERS_SCHEMA_DICT :: tool_schema where
  "SEARCH_FEDERAL_EXECUTIVE_ORDERS_SCHEMA_DICT =
     \<lparr>schema_name = ''search_federal_executive_orders'',
      schema_description =
        ''Searches for federal executive orders in the database based on optional keywords and a date range. ''\<rparr>"

definition available_tools :: "string list" where
  "available_tools = [''search_federal_executive_orders'']"

text \<open>
  What one turn depends on: the Model Backend client (\<open>None\<close> when it was not
  initialised; a call returns the response, whose \<^verbatim>\<open>message\<close> may be absent, or
  raises an exception with the given text), the tool schemas, the document store and
  the current date.
\<close>

record environment =
  ollama_client ::
    "(chat_message list \<Rightarrow> tool_schema list option \<Rightarrow> string + assistant_message option) option"
  ollama_tool_definitions :: "tool_schema list"
  document_store :: database
  now :: date

text \<open>The three variables the classification of the response sets (lines 100 to 157).\<close>

record turn_state =
  tool_call_candidates :: "tool_call list"
  tool_executed_this_turn :: bool
  final_agent_response_text :: string

subsection \<open>The orchestrator: classification of the response\<close>

definition system_instruction_text_tool_invocation :: string where
  \<open>system_instruction_text_tool_invocation =
     ''You are an AI assistant with access to a tool called 'search_federal_executive_orders'.\<newline>'' @
     ''Your primary function is to determine if the user's request requires searching for federal executive orders.\<newline>'' @
     ''- If the user asks about executive orders, especially with dates or keywords, you MUST call the 'search_federal_executive_orders' tool.\<newline>'' @
     ''- When calling the tool:\<newline>'' @
     ''    - For 'query_keywords': Use specific keywords from the user's query. If none, use an empty string.\<newline>'' @
     ''    - For 'date_range_str': Extract date information (e.g., "last_30_days", "YYYY-MM-DD"). Default to "last_7_days" if unclear.\<newline>'' @
     ''- If the request is not about finding executive orders, respond conversationally.\<newline>'' @
     ''- **Do NOT answer about executive order listings from your own knowledge. If a search is needed, your ONLY action is to call the tool.**\<newline>''\<close>

text \<open>Lines 133 to 136: the content, trimmed, with one pair of wrapper tags removed.\<close>

definition strip_toolcall_tags :: "string \<Rightarrow> string" where
  "strip_toolcall_tags content_str =
     (let content_text = py_strip content_str
      in if prefix ''<toolcall>'' content_text \<and> suffix ''</toolcall>'' content_text
         then py_strip (removesuffix ''</toolcall>'' (removeprefix ''<toolcall>'' content_text))
         else content_text)"

text \<open>Lines 139 to 143: the test for a tool call written into the text content.\<close>

definition is_args_only_tool_call :: "json \<Rightarrow> tool_schema list option \<Rightarrow> bool" where
  "is_args_only_tool_call parsed tools =
     (case parsed of
        JDict d \<Rightarrow>
          dict_get d ''type'' = Some (JStr ''function'')
          \<and> dict_get d ''arguments'' \<noteq> None
          \<and> \<not> (case dict_get d ''function'' of None \<Rightarrow> False | Some f \<Rightarrow> py_truthy f)
          \<and> (case tools of None \<Rightarrow> False | Some ts \<Rightarrow> ts \<noteq> [] \<and> length ts = 1)
      | _ \<Rightarrow> False)"

text \<open>Lines 117 to 157.\<close>

definition classify_response :: "tool_schema list option \<Rightarrow> assistant_message \<Rightarrow> turn_state" where
  "classify_response tools raw =
     (let initial = \<lparr>tool_call_candidates = [], tool_executed_this_turn = False,
                      final_agent_response_text = ''I'm sorry, an issue occurred.''\<rparr>
      in if (case msg_tool_calls raw of None \<Rightarrow> False | Some tcs \<Rightarrow> tcs \<noteq> []) then
           initial\<lparr>tool_call_candidates := the (msg_tool_calls raw),
                   tool_executed_this_turn := True\<rparr>
         else if (case msg_content raw of None \<Rightarrow> False | Some c \<Rightarrow> c \<noteq> []) then
           (let content_text = strip_toolcall_tags (the (msg_content raw))
            in case json_loads content_text of
                 None \<Rightarrow> initial\<lparr>final_agent_response_text := content_text\<rparr>
               | Some parsed \<Rightarrow>
                   if is_args_only_tool_call parsed tools then
                     (let assumed_tool_name = schema_name (hd (the tools));
                          arguments = the (dict_get (case parsed of JDict d \<Rightarrow> d | _ \<Rightarrow> []) ''arguments'')
                      in initial
                           \<lparr>tool_call_candidates :=
                              [ToolCall (Some (''content_assumed_tool_'' @ assumed_tool_name))
                                 \<lparr>fn_name = Some assumed_tool_name, fn_arguments = Some arguments\<rparr>],
                            tool_executed_this_turn := True\<rparr>)
                   else initial\<lparr>final_agent_response_text := content_text\<rparr>)
         else if (case msg_role raw of None \<Rightarrow> True | Some r \<Rightarrow> r = ''assistant'') then
           initial\<lparr>final_agent_response_text := ''AI empty response.''\<rparr>
         else initial\<lparr>final_agent_response_text := ''AI unexpected response.''\<rparr>)"

subsection \<open>The orchestrator: tool execution and formatting\<close>

text \<open>
  \<^verbatim>\<open>str(x)\<close> inside an f-string. For a list or a mapping Python prints its \<^verbatim>\<open>repr\<close>,
  which is not modelled: the compact JSON text stands in for it. No output of the
  registered tool leads there (its values are strings, see \<open>row_dict\<close>).
\<close>

definition py_str :: "json \<Rightarrow> string" where
  "py_str x =
     (case x of
        JStr s \<Rightarrow> s
      | JNull \<Rightarrow> ''None''
      | JBool b \<Rightarrow> (if b then ''True'' else ''False'')
      | JInt i \<Rightarrow> dec_int i
      | _ \<Rightarrow> json_dumps None x)"

definition join :: "string \<Rightarrow> string list \<Rightarrow> string" where
  "join sep xs = (case xs of [] \<Rightarrow> [] | y # ys \<Rightarrow> foldl (\<lambda>acc z. acc @ sep @ z) y ys)"

text \<open>Lines 206 to 211: one document; \<open>None\<close> when it is not a mapping (\<^verbatim>\<open>doc.get\<close> raises).\<close>

definition format_doc :: "json \<Rightarrow> string option" where
  "format_doc doc =
     (case doc of
        JDict d \<Rightarrow>
          Some (''- **Title:** '' @ (case dict_get d ''title'' of None \<Rightarrow> ''N/A'' | Some v \<Rightarrow> py_str v)
            @ ''\<newline>- **Document Number:** ''
            @ (case dict_get d ''document_number'' of None \<Rightarrow> ''N/A'' | Some v \<Rightarrow> py_str v)
            @ ''\<newline>- **Publication Date:** ''
            @ (case dict_get d ''publication_date'' of None \<Rightarrow> ''N/A'' | Some v \<Rightarrow> py_str v)
            @ ''\<newline>- **Link:** [Read Document]('' 
            @ (case dict_get d ''html_url'' of None \<Rightarrow> ''#'' | Some v \<Rightarrow> py_str v) @ '')'')
      | _ \<Rightarrow> None)"

text \<open>
  Lines 197 to 222: the tool's output parsed and rendered. \<open>None\<close> is an exception
  raised on the way, which line 223 catches. A true \<^verbatim>\<open>message\<close> that is a number has
  no \<^verbatim>\<open>len\<close> (line 222); one that is a list or a mapping is rendered by \<open>py_str\<close>,
  where the code goes on with a value that is not a string (again, the registered tool
  never produces one).
\<close>

definition format_tool_result :: "string \<Rightarrow> string option" where
  "format_tool_result tool_result_json_string =
     (case json_loads tool_result_json_string of
        None \<Rightarrow> Some ''Error: Tool data invalid.''
      | Some tool_data \<Rightarrow>
          (case tool_data of
             JDict d \<Rightarrow>
               if (case dict_get d ''message'' of None \<Rightarrow> False | Some m \<Rightarrow> py_truthy m) then
                 (case the (dict_get d ''message'') of
                    JInt i \<Rightarrow> None
                  | JBool b \<Rightarrow> None
                  | m \<Rightarrow> Some (py_str m))
               else if (case dict_get d ''error'' of None \<Rightarrow> False | Some e \<Rightarrow> py_truthy e) then
                 Some (''Error from tool: '' @ py_str (the (dict_get d ''error'')))
               else Some ''Received an unusual response from search.''
           | JList docs \<Rightarrow>
               if docs \<noteq> [] then
                 (if list_all (\<lambda>doc. format_doc doc \<noteq> None) docs
                  then Some (join ''\<newline>---\<newline>'' (map (\<lambda>doc. the (format_doc doc)) docs))
                  else None)
               else Some ''No executive orders found for the given criteria.''
           | _ \<Rightarrow> Some ''Received an unusual response from search.''))"

text \<open>
  Line 194 for the registered tool: \<^verbatim>\<open>search_federal_executive_orders(**tool_args)\<close>.
  \<open>None\<close> is the \<^verbatim>\<open>TypeError\<close> of a \<^verbatim>\<open>tool_args\<close> that is not a mapping or has a key
  the function does not take; then the function body does not run.
\<close>

definition call_search_tool :: "database \<Rightarrow> date \<Rightarrow> json \<Rightarrow> string option" where
  "call_search_tool db today tool_args =
     (case tool_args of
        JDict kwargs \<Rightarrow>
          if list_all (\<lambda>k. k = ''query_keywords'' \<or> k = ''date_range_str'') (map fst kwargs) then
            Some (search_federal_executive_orders db today
                    (case dict_get kwargs ''query_keywords'' of None \<Rightarrow> JNull | Some v \<Rightarrow> v)
                    (case dict_get kwargs ''date_range_str'' of
                       None \<Rightarrow> JStr ''last_7_days'' | Some v \<Rightarrow> v))
          else None
      | _ \<Rightarrow> None)"

text \<open>
  Lines 165 to 229: the body of the loop for an entry that has a \<^verbatim>\<open>function\<close>; every
  path through it ends in \<^verbatim>\<open>break\<close>. The result is
  \<^verbatim>\<open>formatted_markdown_for_final_response\<close> and the tool invocations made, each with
  the tool's name and its arguments.
\<close>

definition execute_tool_call ::
  "database \<Rightarrow> date \<Rightarrow> function_data \<Rightarrow> string \<times> (string \<times> json) list" where
  "execute_tool_call db today tool_function_data =
     (case fn_name tool_function_data of
        None \<Rightarrow> (''Error: Tool call was malformed (missing name).'', [])
      | Some tool_name \<Rightarrow>
          if tool_name = [] then (''Error: Tool call was malformed (missing name).'', [])
          else
            (case (case fn_arguments tool_function_data of
                     None \<Rightarrow> Inr (JDict [])
                   | Some (JStr s) \<Rightarrow>
                       (case json_loads s of
                          None \<Rightarrow> Inl (''Error: Invalid arguments for tool '' @ tool_name @ ''.'')
                        | Some parsed \<Rightarrow> Inr parsed)
                   | Some (JDict d) \<Rightarrow> Inr (JDict d)
                   | Some _ \<Rightarrow>
                       Inl (''Error: Tool arguments for '' @ tool_name @ '' had an unexpected type.'')) of
               Inl error_text \<Rightarrow> (error_text, [])
             | Inr tool_args \<Rightarrow>
                 if tool_name \<in> set available_tools then
                   (case call_search_tool db today tool_args of
                      None \<Rightarrow> (''System error during '' @ tool_name @ '' execution.'', [])
                    | Some tool_result_json_string \<Rightarrow>
                        ((case format_tool_result tool_result_json_string of
                            None \<Rightarrow> ''System error during '' @ tool_name @ '' execution.''
                          | Some text \<Rightarrow> text),
                         [(tool_name, tool_args)]))
                 else (''Error: Tool '' @ [CHR 0x27] @ tool_name @ [CHR 0x27] @ '' not available.'', [])))"

text \<open>Lines 161 to 229: the loop over the candidates.\<close>

fun run_tool_calls ::
  "database \<Rightarrow> date \<Rightarrow> tool_call list \<Rightarrow> string \<times> (string \<times> json) list" where
  "run_tool_calls db today [] = (''Error processing tool results.'', [])"
| "run_tool_calls db today (Malformed # rest) = run_tool_calls db today rest"
| "run_tool_calls db today (ToolCall tool_id tool_function_data # rest) =
     execute_tool_call db today tool_function_data"

text \<open>Lines 232 to 242: the reply built from the formatted text.\<close>

definition is_error_message :: "string \<Rightarrow> bool" where
  "is_error_message formatted =
     (sublist ''No executive orders found'' formatted \<or>
      sublist ''Error from tool'' formatted \<or>
      sublist ''Error: Tool data invalid'' formatted \<or>
      sublist ''System error during'' formatted \<or>
      sublist ''Error: Tool call was malformed'' formatted \<or>
      sublist ''Error: Invalid arguments for tool'' formatted \<or>
      sublist ''Error: Tool arguments for'' formatted \<or>
      sublist (''Error: Tool '' @ [CHR 0x27]) formatted)"

definition final_envelope :: "string \<Rightarrow> string" where
  "final_envelope formatted =
     (if is_error_message formatted then formatted
      else ''Okay, I found the following executive orders based on your request:\<newline>\<newline>'' @ formatted)"

subsection \<open>The orchestrator: one turn\<close>

text \<open>Lines 96 to 98: the prompt; line 105: the tools offered to the model.\<close>

definition current_turn_messages :: "chat_message list \<Rightarrow> string \<Rightarrow> chat_message list" where
  "current_turn_messages chat_history user_message =
     \<lparr>role = ''system'', content = system_instruction_text_tool_invocation\<rparr>
       # chat_history @ [\<lparr>role = ''user'', content = user_message\<rparr>]"

definition tools_for_this_call :: "environment \<Rightarrow> tool_schema list option" where
  "tools_for_this_call env =
     (if ollama_tool_definitions env \<noteq> [] then Some (ollama_tool_definitions env) else None)"

text \<open>
  Lines 105 to 244, after the Model Backend has answered: the reply text and the tool
  invocations of the turn.
\<close>

definition process_response ::
  "environment \<Rightarrow> assistant_message option \<Rightarrow> string \<times> (string \<times> json) list" where
  "process_response env response =
     (let raw_assistant_message_dict =
            (case response of
               None \<Rightarrow> \<lparr>msg_role = None, msg_content = None, msg_tool_calls = None\<rparr>
             | Some m \<Rightarrow> m);
          st = classify_response (tools_for_this_call env) raw_assistant_message_dict
      in if tool_executed_this_turn st \<and> tool_call_candidates st \<noteq> [] then
           (case run_tool_calls (document_store env) (now env) (tool_call_candidates st) of
              (formatted, invoked) \<Rightarrow> (final_envelope formatted, invoked))
         else (final_agent_response_text st, []))"

text \<open>
  \<^verbatim>\<open>chat\<close> (lines 80 to 259). The handler reads and replaces the global
  \<^verbatim>\<open>chat_history\<close>; here the history is passed in and the new one returned, with
  the text of the response and the tool invocations of the turn.
\<close>

record chat_result =
  new_chat_history :: "chat_message list"
  response :: string
  tool_invocations :: "(string \<times> json) list"

definition chat :: "environment \<Rightarrow> chat_message list \<Rightarrow> string \<Rightarrow> chat_result" where
  "chat env chat_history user_message =
     (let (final_agent_response_text, invoked) =
            (case ollama_client env of
               None \<Rightarrow> (''AI assistant not configured.'', [])
             | Some client \<Rightarrow>
                 (case client (current_turn_messages chat_history user_message)
                         (tools_for_this_call env) of
                    Inl e \<Rightarrow> (''Unexpected error: '' @ e, [])
                  | Inr ollama_response_data \<Rightarrow> process_response env ollama_response_data));
          appended = chat_history
            @ [\<lparr>role = ''user'', content = user_message\<rparr>,
               \<lparr>role = ''assistant'', content = final_agent_response_text\<rparr>]
      in \<lparr>new_chat_history =
            (if length appended > 20 then drop (length appended - 20) appended else appended),
          response = final_agent_response_text,
          tool_invocations = invoked\<rparr>)"

subsection \<open>Example turns\<close>

text \<open>A Model Backend that is unreachable, and one that answers with a fixed message.\<close>

definition failing_client ::
  "chat_message list \<Rightarrow> tool_schema list option \<Rightarrow> string + assistant_message option" where
  "failing_client messages tools = Inl ''connection refused''"

definition fixed_client ::
  "assistant_message \<Rightarrow> chat_message list \<Rightarrow> tool_schema list option
     \<Rightarrow> string + assistant_message option" where
  "fixed_client message messages tools = Inr (Some message)"

definition example_env :: "database \<Rightarrow> assistant_message \<Rightarrow> environment" where
  "example_env db message =
     \<lparr>ollama_client = Some (fixed_client message),
      ollama_tool_definitions = [SEARCH_FEDERAL_EXECUTIVE_ORDERS_SCHEMA_DICT],
      document_store = db,
      now = 739924\<rparr>"

definition failing_env :: environment where
  "failing_env =
     \<lparr>ollama_client = Some failing_client,
      ollama_tool_definitions = [SEARCH_FEDERAL_EXECUTIVE_ORDERS_SCHEMA_DICT],
      document_store = Table [],
      now = 739924\<rparr>"

text \<open>A structured call of the search tool with the keyword \<^verbatim>\<open>climate\<close>.\<close>

definition climate_call :: tool_call where
  "climate_call =
     ToolCall (Some ''call_1'')
       \<lparr>fn_name = Some ''search_federal_executive_orders'',
        fn_arguments = Some (JDict [(''query_keywords'', JStr ''climate'')])\<rparr>"

definition structured_message :: assistant_message where
  \<open>structured_message =
     \<lparr>msg_role = Some ''assistant'',
      msg_content = Some ''{"type":"function","arguments":{"query_keywords":"orders"}}'',
      msg_tool_calls = Some [climate_call]\<rparr>\<close>

text \<open>Text content that holds a tool call: without and with a \<^verbatim>\<open>function\<close> field.\<close>

definition embedded_message :: assistant_message where
  \<open>embedded_message =
     \<lparr>msg_role = Some ''assistant'',
      msg_content = Some ''{"type":"function","arguments":{"query_keywords":"climate"}}'',
      msg_tool_calls = None\<rparr>\<close>

definition null_function_message :: assistant_message where
  \<open>null_function_message =
     \<lparr>msg_role = Some ''assistant'',
      msg_content = Some ''{"type":"function","function":null,"arguments":{"query_keywords":"climate"}}'',
      msg_tool_calls = None\<rparr>\<close>

text \<open>A response that proposes two calls of the search tool.\<close>

definition energy_call :: tool_call where
  "energy_call =
     ToolCall (Some ''call_2'')
       \<lparr>fn_name = Some ''search_federal_executive_orders'',
        fn_arguments = Some (JDict [(''query_keywords'', JStr ''energy'')])\<rparr>"

definition two_calls_message :: assistant_message where
  "two_calls_message =
     \<lparr>msg_role = Some ''assistant'', msg_content = None,
      msg_tool_calls = Some [climate_call, energy_call]\<rparr>"

text \<open>A response with one structured call of the search tool and no text.\<close>

definition search_message :: assistant_message where
  "search_message =
     \<lparr>msg_role = Some ''assistant'', msg_content = None, msg_tool_calls = Some [climate_call]\<rparr>"

text \<open>The rows of the store, none when it cannot be read.\<close>

definition table_rows :: "database \<Rightarrow> document_row list" where
  "table_rows db = (case db of Table rows \<Rightarrow> rows | _ \<Rightarrow> [])"

text \<open>A store with two presidential documents of the last week and one other document.\<close>

definition climate_order :: document_row where
  "climate_order =
     \<lparr>document_number = ''2026-20001'', document_type = ''Presidential Document'',
      title = ''Climate Action Plan'', publication_date = ''2026-11-01'',
      abstract = None, html_url = ''https://example.org/a''\<rparr>"

definition energy_order :: document_row where
  "energy_order =
     \<lparr>document_number = ''2026-20002'', document_type = ''Presidential Document'',
      title = ''Grid Security'', publication_date = ''2026-11-03 10:00:00'',
      abstract = Some ''On ENERGY supply'', html_url = ''https://example.org/b''\<rparr>"

definition climate_rule :: document_row where
  "climate_rule =
     \<lparr>document_number = ''2026-20003'', document_type = ''Rule'',
      title = ''Climate reporting'', publication_date = ''2026-11-02'',
      abstract = Some ''A rule'', html_url = ''https://example.org/c''\<rparr>"

definition example_store :: database where
  "example_store = Table [climate_order, energy_order, climate_rule]"


text \<open>
  A value as \<^verbatim>\<open>json.dumps\<close> receives it from a Python \<^verbatim>\<open>dict\<close>: no mapping in it has
  the same key twice.
\<close>

fun distinct_keys :: "json \<Rightarrow> bool"
  and distinct_keys_items :: "json list \<Rightarrow> bool"
  and distinct_keys_members :: "(string \<times> json) list \<Rightarrow> bool"
where
  "distinct_keys (JList xs) = distinct_keys_items xs"
| "distinct_keys (JDict kvs) = (distinct (map fst kvs) \<and> distinct_keys_members kvs)"
| "distinct_keys JNull = True"
| "distinct_keys (JBool b) = True"
| "distinct_keys (JInt i) = True"
| "distinct_keys (JStr s) = True"
| "distinct_keys_items [] = True"
| "distinct_keys_items (x # xs) = (distinct_keys x \<and> distinct_keys_items xs)"
| "distinct_keys_members [] = True"
| "distinct_keys_members ((k, v) # kvs) = (distinct_keys v \<and> distinct_keys_members kvs)"

(*THEOREMS*)

section \<open>Properties\<close>

subsection \<open>Date-range resolution\<close>

lemma strptime_tokens:
  "strptime ''today'' = None" "strptime ''yesterday'' = None"
  "strptime ''last_7_days'' = None" "strptime ''last_30_days'' = None"
  "strptime ''last_year'' = None"
  by (simp_all add: strptime_def is_digit_def)



subsection \<open>Conversation history\<close>

text \<open>
  Claim C7. After a turn the history is the old history with the user message and the
  reply appended, cut to its last 20 entries: it has \<open>min 20 (n + 2)\<close> entries for
  an old history of \<open>n\<close>, so nothing is dropped up to 20 entries and the oldest go
  first beyond that. This holds on every path of the handler.
\<close>

theorem history_truncation:
  "length (new_chat_history (chat env chat_history user_message)) = min 20 (length chat_history + 2) \<and>
   new_chat_history (chat env chat_history user_message) =
     drop (length chat_history + 2 - 20)
       (chat_history @ [\<lparr>role = ''user'', content = user_message\<rparr>,
          \<lparr>role = ''assistant'', content = response (chat env chat_history user_message)\<rparr>])"
  by (simp add: chat_def Let_def split: prod.splits)

subsection \<open>Failure of the Model Backend\<close>

text \<open>
  Claim C2, as the code has it. When the call of the Model Backend raises an exception
  with text \<open>e\<close>, the reply is \<^verbatim>\<open>Unexpected error: \<close> followed by \<open>e\<close> itself; no tool
  runs, and the turn completes: the reply is returned and recorded in the history.
\<close>

theorem backend_failure_reply:
  "ollama_client env = Some client \<Longrightarrow>
   client (current_turn_messages chat_history user_message) (tools_for_this_call env) = Inl e \<Longrightarrow>
   response (chat env chat_history user_message) = ''Unexpected error: '' @ e \<and>
   tool_invocations (chat env chat_history user_message) = [] \<and>
   new_chat_history (chat env chat_history user_message) =
     drop (length chat_history + 2 - 20)
       (chat_history @ [\<lparr>role = ''user'', content = user_message\<rparr>,
          \<lparr>role = ''assistant'', content = ''Unexpected error: '' @ e\<rparr>])"
  by (simp add: chat_def Let_def split: prod.splits)

theorem backend_failure_reply_witness:
  "ollama_client failing_env = Some failing_client \<and>
   failing_client (current_turn_messages [] ''hello'') (tools_for_this_call failing_env)
     = Inl ''connection refused'' \<and>
   response (chat failing_env [] ''hello'') = ''Unexpected error: connection refused'' \<and>
   tool_invocations (chat failing_env [] ''hello'') = [] \<and>
   new_chat_history (chat failing_env [] ''hello'') =
     [\<lparr>role = ''user'', content = ''hello''\<rparr>,
      \<lparr>role = ''assistant'', content = ''Unexpected error: connection refused''\<rparr>]"
proof -
  have c: "ollama_client failing_env = Some failing_client" by (simp add: failing_env_def)
  have e: "failing_client (current_turn_messages [] ''hello'') (tools_for_this_call failing_env)
     = Inl ''connection refused''" by (simp add: failing_client_def)
  show ?thesis using backend_failure_reply [OF c e] c e by simp
qed

text \<open>
  The claim as the specification states it fails: with a backend that raises
  \<^verbatim>\<open>connection refused\<close>, the reply contains that text.
\<close>

theorem backend_failure_counterexample:
  "ollama_client failing_env = Some failing_client \<and>
   failing_client (current_turn_messages [] ''hello'') (tools_for_this_call failing_env)
     = Inl ''connection refused'' \<and>
   response (chat failing_env [] ''hello'') = ''Unexpected error: connection refused'' \<and>
   sublist ''connection refused'' (response (chat failing_env [] ''hello''))"
proof -
  have r: "response (chat failing_env [] ''hello'') = ''Unexpected error: '' @ ''connection refused''"
    by (simp add: chat_def failing_env_def failing_client_def Let_def)
  have "sublist ''connection refused'' (''Unexpected error: '' @ ''connection refused'')"
    using sublist_appendI [of "''connection refused''" "''Unexpected error: ''" "[]"] by simp
  with r show ?thesis by (simp add: failing_env_def failing_client_def)
qed

subsection \<open>Structured tool calls\<close>

lemma classify_structured:
  "msg_tool_calls raw = Some tcs \<Longrightarrow> tcs \<noteq> [] \<Longrightarrow>
   classify_response tools raw =
     \<lparr>tool_call_candidates = tcs, tool_executed_this_turn = True,
      final_agent_response_text = ''I'm sorry, an issue occurred.''\<rparr>"
  by (simp add: classify_response_def Let_def)

text \<open>
  Claim C8. A response that carries at least one structured tool call is classified as
  a tool call with exactly those candidates, and neither the classification nor the
  outcome of the turn depends on the text content that comes with it.
\<close>

theorem structured_tool_call_precedence:
  "msg_tool_calls raw = Some tcs \<Longrightarrow> tcs \<noteq> [] \<Longrightarrow>
   tool_executed_this_turn (classify_response tools raw) \<and>
   tool_call_candidates (classify_response tools raw) = tcs \<and>
   classify_response tools (raw\<lparr>msg_content := c\<rparr>) = classify_response tools raw \<and>
   process_response env (Some (raw\<lparr>msg_content := c\<rparr>)) = process_response env (Some raw)"
  by (simp add: classify_structured process_response_def Let_def)

theorem structured_tool_call_precedence_witness:
  "msg_tool_calls structured_message = Some [climate_call] \<and> [climate_call] \<noteq> [] \<and>
   msg_content structured_message \<noteq> None \<and>
   tool_executed_this_turn (classify_response (Some [SEARCH_FEDERAL_EXECUTIVE_ORDERS_SCHEMA_DICT])
     structured_message) \<and>
   tool_call_candidates (classify_response (Some [SEARCH_FEDERAL_EXECUTIVE_ORDERS_SCHEMA_DICT])
     structured_message) = [climate_call] \<and>
   process_response (example_env (Table []) structured_message)
       (Some (structured_message\<lparr>msg_content := None\<rparr>))
     = process_response (example_env (Table []) structured_message) (Some structured_message)"
proof -
  have a: "msg_tool_calls structured_message = Some [climate_call]"
    by (simp add: structured_message_def)
  have b: "[climate_call] \<noteq> []" by simp
  show ?thesis
    using structured_tool_call_precedence [OF a b] a by (simp add: structured_message_def)
qed

subsection \<open>One tool call per turn\<close>

lemma execute_tool_call_invocations:
  "snd (execute_tool_call db today fd) = [] \<or>
   (\<exists>tool_name tool_args. fn_name fd = Some tool_name
      \<and> snd (execute_tool_call db today fd) = [(tool_name, tool_args)])"
  by (auto simp: execute_tool_call_def split: option.splits sum.splits json.splits)

lemma run_tool_calls_length: "length (snd (run_tool_calls db today tcs)) \<le> 1"
proof (induction db today tcs rule: run_tool_calls.induct)
  case (3 db today tool_id fd rest)
  show ?case using execute_tool_call_invocations [of db today fd] by auto
qed simp_all

lemma process_response_length: "length (snd (process_response env r)) \<le> 1"
  using run_tool_calls_length by (simp add: process_response_def Let_def case_prod_unfold)

text \<open>
  Claim C9. A turn invokes a tool at most once. When the response proposes structured
  tool calls and the first entry is a tool call, the turn is decided by that entry
  alone: the invocation made, if any, is the one for its function, and the reply is
  built from its result, whatever entries follow it.
\<close>

theorem single_tool_call_per_turn:
  "length (tool_invocations (chat env chat_history user_message)) \<le> 1 \<and>
   (\<forall>client raw tool_id fd rest.
      ollama_client env = Some client \<longrightarrow>
      client (current_turn_messages chat_history user_message) (tools_for_this_call env)
        = Inr (Some raw) \<longrightarrow>
      msg_tool_calls raw = Some (ToolCall tool_id fd # rest) \<longrightarrow>
        tool_invocations (chat env chat_history user_message)
          = snd (execute_tool_call (document_store env) (now env) fd) \<and>
        response (chat env chat_history user_message)
          = final_envelope (fst (execute_tool_call (document_store env) (now env) fd)) \<and>
        (\<forall>inv \<in> set (tool_invocations (chat env chat_history user_message)).
           fn_name fd = Some (fst inv)))"
proof -
  have one: "length (tool_invocations (chat env chat_history user_message)) \<le> 1"
    using process_response_length
    by (simp add: chat_def Let_def case_prod_unfold split: option.splits sum.splits)
  have first: "tool_invocations (chat env chat_history user_message)
          = snd (execute_tool_call (document_store env) (now env) fd) \<and>
        response (chat env chat_history user_message)
          = final_envelope (fst (execute_tool_call (document_store env) (now env) fd)) \<and>
        (\<forall>inv \<in> set (tool_invocations (chat env chat_history user_message)).
           fn_name fd = Some (fst inv))"
    if c: "ollama_client env = Some client"
      and r: "client (current_turn_messages chat_history user_message) (tools_for_this_call env)
        = Inr (Some raw)"
      and t: "msg_tool_calls raw = Some (ToolCall tool_id fd # rest)"
    for client raw tool_id fd rest
  proof -
    have cl: "classify_response (tools_for_this_call env) raw =
      \<lparr>tool_call_candidates = ToolCall tool_id fd # rest, tool_executed_this_turn = True,
       final_agent_response_text = ''I'm sorry, an issue occurred.''\<rparr>"
      using t by (simp add: classify_structured)
    have p: "process_response env (Some raw) =
      (final_envelope (fst (execute_tool_call (document_store env) (now env) fd)),
       snd (execute_tool_call (document_store env) (now env) fd))"
      by (simp add: process_response_def Let_def cl split: prod.splits)
    have i: "tool_invocations (chat env chat_history user_message)
          = snd (execute_tool_call (document_store env) (now env) fd)"
      and q: "response (chat env chat_history user_message)
          = final_envelope (fst (execute_tool_call (document_store env) (now env) fd))"
      using c r p by (simp_all add: chat_def Let_def)
    show ?thesis
      using i q execute_tool_call_invocations [of "document_store env" "now env" fd] by auto
  qed
  show ?thesis using one first by blast
qed

theorem single_tool_call_per_turn_witness:
  "ollama_client (example_env (Table []) two_calls_message) = Some (fixed_client two_calls_message) \<and>
   fixed_client two_calls_message (current_turn_messages [] ''orders on climate or energy?'')
       (tools_for_this_call (example_env (Table []) two_calls_message))
     = Inr (Some two_calls_message) \<and>
   msg_tool_calls two_calls_message = Some [climate_call, energy_call] \<and>
   tool_invocations (chat (example_env (Table []) two_calls_message) []
       ''orders on climate or energy?'')
     = [(''search_federal_executive_orders'', JDict [(''query_keywords'', JStr ''climate'')])]"
proof -
  let ?env = "example_env (Table []) two_calls_message"
  have c: "ollama_client ?env = Some (fixed_client two_calls_message)"
    by (simp add: example_env_def)
  have r: "fixed_client two_calls_message (current_turn_messages [] ''orders on climate or energy?'')
       (tools_for_this_call ?env) = Inr (Some two_calls_message)"
    by (simp add: fixed_client_def)
  have t: "msg_tool_calls two_calls_message =
      Some (ToolCall (Some ''call_1'')
        \<lparr>fn_name = Some ''search_federal_executive_orders'',
         fn_arguments = Some (JDict [(''query_keywords'', JStr ''climate'')])\<rparr> # [energy_call])"
    by (simp add: two_calls_message_def climate_call_def)
  have i: "snd (execute_tool_call (document_store ?env) (now ?env)
        \<lparr>fn_name = Some ''search_federal_executive_orders'',
         fn_arguments = Some (JDict [(''query_keywords'', JStr ''climate'')])\<rparr>)
      = [(''search_federal_executive_orders'', JDict [(''query_keywords'', JStr ''climate'')])]"
    by (simp add: execute_tool_call_def call_search_tool_def available_tools_def)
  from single_tool_call_per_turn [of ?env "[]" "''orders on climate or energy?''"] c r t
  have "tool_invocations (chat ?env [] ''orders on climate or energy?'')
      = snd (execute_tool_call (document_store ?env) (now ?env)
          \<lparr>fn_name = Some ''search_federal_executive_orders'',
           fn_arguments = Some (JDict [(''query_keywords'', JStr ''climate'')])\<rparr>)"
    by blast
  with i c r show ?thesis by (simp add: two_calls_message_def climate_call_def)
qed

subsection \<open>Tool calls written into the text content\<close>

lemma is_args_only_tool_call_iff:
  "is_args_only_tool_call parsed tools \<longleftrightarrow>
     (\<exists>d args t. parsed = JDict d \<and> dict_get d ''type'' = Some (JStr ''function'')
        \<and> dict_get d ''arguments'' = Some args
        \<and> (dict_get d ''function'' = None
             \<or> (\<exists>f. dict_get d ''function'' = Some f \<and> \<not> py_truthy f))
        \<and> tools = Some [t])"
  by (cases parsed; cases tools)
     (auto simp: is_args_only_tool_call_def length_Suc_conv split: option.splits)

text \<open>
  Claim C3, as the code has it. For a response with no structured tool calls, the text
  content is read as a tool call exactly when it is not empty and, trimmed and with one
  pair of wrapper tags removed and trimmed again, parses as a JSON object whose
  \<^verbatim>\<open>type\<close> is \<^verbatim>\<open>"function"\<close>, that has an \<^verbatim>\<open>arguments\<close> field, and whose
  \<^verbatim>\<open>function\<close> field is absent or false in Python's sense (\<^verbatim>\<open>null\<close>, \<^verbatim>\<open>false\<close>,
  \<^verbatim>\<open>0\<close>, empty string, list or object), while exactly one tool was offered. Then the
  one candidate is a call of that tool with the parsed arguments; otherwise there is no
  candidate.
\<close>

theorem embedded_tool_call_classification:
  "(case msg_tool_calls raw of None \<Rightarrow> True | Some tcs \<Rightarrow> tcs = []) \<Longrightarrow>
   (tool_executed_this_turn (classify_response tools raw) \<longleftrightarrow>
      (\<exists>c d args t. msg_content raw = Some c \<and> c \<noteq> []
         \<and> json_loads (strip_toolcall_tags c) = Some (JDict d)
         \<and> dict_get d ''type'' = Some (JStr ''function'')
         \<and> dict_get d ''arguments'' = Some args
         \<and> (dict_get d ''function'' = None
              \<or> (\<exists>f. dict_get d ''function'' = Some f \<and> \<not> py_truthy f))
         \<and> tools = Some [t])) \<and>
   (\<forall>c d args t. msg_content raw = Some c \<and> c \<noteq> []
         \<and> json_loads (strip_toolcall_tags c) = Some (JDict d)
         \<and> dict_get d ''type'' = Some (JStr ''function'')
         \<and> dict_get d ''arguments'' = Some args
         \<and> (dict_get d ''function'' = None
              \<or> (\<exists>f. dict_get d ''function'' = Some f \<and> \<not> py_truthy f))
         \<and> tools = Some [t]
      \<longrightarrow> tool_call_candidates (classify_response tools raw) =
            [ToolCall (Some (''content_assumed_tool_'' @ schema_name t))
               \<lparr>fn_name = Some (schema_name t), fn_arguments = Some args\<rparr>]) \<and>
   (\<not> tool_executed_this_turn (classify_response tools raw)
      \<longrightarrow> tool_call_candidates (classify_response tools raw) = [])"
proof -
  assume no_calls: "case msg_tool_calls raw of None \<Rightarrow> True | Some tcs \<Rightarrow> tcs = []"
  then have nc: "\<not> (case msg_tool_calls raw of None \<Rightarrow> False | Some tcs \<Rightarrow> tcs \<noteq> [])"
    by (simp split: option.splits)
  show ?thesis
  proof (cases "case msg_content raw of None \<Rightarrow> False | Some c \<Rightarrow> c \<noteq> []")
    case False
    then have "\<not> tool_executed_this_turn (classify_response tools raw)"
      and "tool_call_candidates (classify_response tools raw) = []"
      using nc by (simp_all add: classify_response_def Let_def)
    moreover have "\<not> (\<exists>c. msg_content raw = Some c \<and> c \<noteq> [])"
      using False by (auto split: option.splits)
    ultimately show ?thesis by auto
  next
    case True
    then obtain c where c: "msg_content raw = Some c" "c \<noteq> []"
      by (auto split: option.splits)
    show ?thesis
    proof (cases "json_loads (strip_toolcall_tags c)")
      case None
      then have "\<not> tool_executed_this_turn (classify_response tools raw)"
        and "tool_call_candidates (classify_response tools raw) = []"
        using nc c by (simp_all add: classify_response_def Let_def)
      then show ?thesis using c None by auto
    next
      case (Some parsed)
      show ?thesis
      proof (cases "is_args_only_tool_call parsed tools")
        case False
        then have n: "\<not> tool_executed_this_turn (classify_response tools raw)"
          and e: "tool_call_candidates (classify_response tools raw) = []"
          using nc c Some by (simp_all add: classify_response_def Let_def)
        have "\<not> (\<exists>d args t. parsed = JDict d \<and> dict_get d ''type'' = Some (JStr ''function'')
          \<and> dict_get d ''arguments'' = Some args
          \<and> (dict_get d ''function'' = None
             \<or> (\<exists>f. dict_get d ''function'' = Some f \<and> \<not> py_truthy f))
          \<and> tools = Some [t])"
          using False by (simp add: is_args_only_tool_call_iff)
        then show ?thesis using n e c Some by auto
      next
        case True
        then obtain d args t where p: "parsed = JDict d"
          "dict_get d ''type'' = Some (JStr ''function'')"
          "dict_get d ''arguments'' = Some args"
          "dict_get d ''function'' = None
             \<or> (\<exists>f. dict_get d ''function'' = Some f \<and> \<not> py_truthy f)"
          "tools = Some [t]"
          unfolding is_args_only_tool_call_iff by blast
        have f: "tool_executed_this_turn (classify_response tools raw)"
          and k: "tool_call_candidates (classify_response tools raw) =
            [ToolCall (Some (''content_assumed_tool_'' @ schema_name t))
               \<lparr>fn_name = Some (schema_name t), fn_arguments = Some args\<rparr>]"
          using nc c Some True p by (simp_all add: classify_response_def Let_def)
        show ?thesis using f k c Some p by auto
      qed
    qed
  qed
qed

theorem embedded_tool_call_classification_witness:
  \<open>(case msg_tool_calls embedded_message of None \<Rightarrow> True | Some tcs \<Rightarrow> tcs = []) \<and>
   msg_content embedded_message
     = Some ''{"type":"function","arguments":{"query_keywords":"climate"}}'' \<and>
   tool_executed_this_turn
     (classify_response (Some [SEARCH_FEDERAL_EXECUTIVE_ORDERS_SCHEMA_DICT]) embedded_message) \<and>
   tool_call_candidates
     (classify_response (Some [SEARCH_FEDERAL_EXECUTIVE_ORDERS_SCHEMA_DICT]) embedded_message)
     = [ToolCall (Some ''content_assumed_tool_search_federal_executive_orders'')
          \<lparr>fn_name = Some ''search_federal_executive_orders'',
           fn_arguments = Some (JDict [(''query_keywords'', JStr ''climate'')])\<rparr>] \<and>
   \<not> tool_executed_this_turn
       (classify_response
          (Some [SEARCH_FEDERAL_EXECUTIVE_ORDERS_SCHEMA_DICT, SEARCH_FEDERAL_EXECUTIVE_ORDERS_SCHEMA_DICT])
          embedded_message)\<close>
proof -
  let ?c = \<open>''{"type":"function","arguments":{"query_keywords":"climate"}}''\<close>
  let ?d = "[(''type'', JStr ''function''),
             (''arguments'', JDict [(''query_keywords'', JStr ''climate'')])]"
  let ?S = SEARCH_FEDERAL_EXECUTIVE_ORDERS_SCHEMA_DICT
  have n: "case msg_tool_calls embedded_message of None \<Rightarrow> True | Some tcs \<Rightarrow> tcs = []"
    by (simp add: embedded_message_def)
  have c: "msg_content embedded_message = Some ?c" "?c \<noteq> []"
    by (simp_all add: embedded_message_def)
  have l: "json_loads (strip_toolcall_tags ?c) = Some (JDict ?d)"
    by code_simp
  have g: "dict_get ?d ''type'' = Some (JStr ''function'')"
    "dict_get ?d ''arguments'' = Some (JDict [(''query_keywords'', JStr ''climate'')])"
    "dict_get ?d ''function'' = None"
    by (simp_all add: dict_get_def)
  note one = embedded_tool_call_classification [OF n, of "Some [?S]"]
  note two = embedded_tool_call_classification [OF n, of "Some [?S, ?S]"]
  have fires: "tool_executed_this_turn (classify_response (Some [?S]) embedded_message)"
    using one c l g by blast
  have cands: "tool_call_candidates (classify_response (Some [?S]) embedded_message)
     = [ToolCall (Some (''content_assumed_tool_'' @ schema_name ?S))
          \<lparr>fn_name = Some (schema_name ?S),
           fn_arguments = Some (JDict [(''query_keywords'', JStr ''climate'')])\<rparr>]"
    using one c l g by blast
  have not_two: "\<not> tool_executed_this_turn (classify_response (Some [?S, ?S]) embedded_message)"
    using two by blast
  show ?thesis
    using n c(1) fires cands not_two
    by (simp add: SEARCH_FEDERAL_EXECUTIVE_ORDERS_SCHEMA_DICT_def)
qed

text \<open>
  The claim as the specification states it fails: a \<^verbatim>\<open>function\<close> field that is present
  with the value \<^verbatim>\<open>null\<close> does not stop the classification.
\<close>

theorem embedded_tool_call_counterexample:
  \<open>msg_tool_calls null_function_message = None \<and>
   json_loads (strip_toolcall_tags (the (msg_content null_function_message)))
     = Some (JDict [(''type'', JStr ''function''), (''function'', JNull),
                    (''arguments'', JDict [(''query_keywords'', JStr ''climate'')])]) \<and>
   dict_get [(''type'', JStr ''function''), (''function'', JNull),
             (''arguments'', JDict [(''query_keywords'', JStr ''climate'')])] ''function'' = Some JNull \<and>
   tool_executed_this_turn
     (classify_response (Some [SEARCH_FEDERAL_EXECUTIVE_ORDERS_SCHEMA_DICT]) null_function_message)\<close>
  by code_simp

subsection \<open>The reply to an empty search result\<close>

lemma empty_result_formatted:
  "format_tool_result
     (json_dumps None
        (JDict [(''message'',
           JStr ''No relevant executive orders found matching your criteria in the database.'')]))
   = Some ''No relevant executive orders found matching your criteria in the database.''"
  by code_simp

lemma empty_result_not_error_message:
  "\<not> is_error_message ''No relevant executive orders found matching your criteria in the database.''"
  by code_simp

lemma search_empty_table:
  "search_documents (Table []) 739924 (JStr ''climate'') (JStr ''last_7_days'') = Inr []"
  by (simp add: search_documents_def resolve_date_range_def minus_days_def fetch_documents_def
      order_by_publication_date_desc_def keyword_argument_def py_strip_def py_isspace_def)

lemma empty_result_reply:
  "search_documents db today query_keywords date_range_str = Inr [] \<Longrightarrow>
   map_option final_envelope
     (format_tool_result (search_federal_executive_orders db today query_keywords date_range_str))
   = Some (''Okay, I found the following executive orders based on your request:\<newline>\<newline>''
       @ ''No relevant executive orders found matching your criteria in the database.'')"
  by (simp add: search_federal_executive_orders_def empty_result_formatted final_envelope_def
      empty_result_not_error_message)

text \<open>
  Claim C1 does not hold of the code. When the search finds no document the tool
  returns the message \<^verbatim>\<open>No relevant executive orders found matching your criteria in
  the database.\<close>; line 200 takes it as the formatted text, and since it contains
  none of the marker texts of lines 232 to 239 (\<^verbatim>\<open>No executive orders found\<close> does not
  occur in it), line 242 puts the lead-in before it. The turn below has a structured
  call of the search tool and an empty table.
\<close>

theorem empty_result_reply_has_lead_in:
  "search_documents (Table []) 739924 (JStr ''climate'') (JStr ''last_7_days'') = Inr [] \<and>
   tool_invocations (chat (example_env (Table []) search_message) [] ''Any orders on climate?'')
     = [(''search_federal_executive_orders'', JDict [(''query_keywords'', JStr ''climate'')])] \<and>
   response (chat (example_env (Table []) search_message) [] ''Any orders on climate?'')
     = ''Okay, I found the following executive orders based on your request:\<newline>\<newline>''
       @ ''No relevant executive orders found matching your criteria in the database.'' \<and>
   response (chat (example_env (Table []) search_message) [] ''Any orders on climate?'')
     \<noteq> ''No executive orders found for the given criteria.''"
proof -
  let ?fd = "\<lparr>fn_name = Some ''search_federal_executive_orders'',
        fn_arguments = Some (JDict [(''query_keywords'', JStr ''climate'')])\<rparr>"
  have x: "execute_tool_call (Table []) 739924 ?fd =
      (''No relevant executive orders found matching your criteria in the database.'',
       [(''search_federal_executive_orders'', JDict [(''query_keywords'', JStr ''climate'')])])"
    by (simp add: execute_tool_call_def available_tools_def call_search_tool_def dict_get_def
        search_federal_executive_orders_def search_empty_table empty_result_formatted)
  have p: "process_response (example_env (Table []) search_message) (Some search_message) =
      (''Okay, I found the following executive orders based on your request:\<newline>\<newline>''
         @ ''No relevant executive orders found matching your criteria in the database.'',
       [(''search_federal_executive_orders'', JDict [(''query_keywords'', JStr ''climate'')])])"
    by (simp add: process_response_def Let_def classify_response_def search_message_def
        climate_call_def example_env_def x final_envelope_def empty_result_not_error_message)
  have c: "chat (example_env (Table []) search_message) [] ''Any orders on climate?'' =
      \<lparr>new_chat_history =
         [\<lparr>role = ''user'', content = ''Any orders on climate?''\<rparr>,
          \<lparr>role = ''assistant'', content =
             ''Okay, I found the following executive orders based on your request:\<newline>\<newline>''
             @ ''No relevant executive orders found matching your criteria in the database.''\<rparr>],
       response = ''Okay, I found the following executive orders based on your request:\<newline>\<newline>''
         @ ''No relevant executive orders found matching your criteria in the database.'',
       tool_invocations =
         [(''search_federal_executive_orders'', JDict [(''query_keywords'', JStr ''climate'')])]\<rparr>"
    unfolding chat_def Let_def
    by (simp add: p [unfolded example_env_def] example_env_def fixed_client_def)
  show ?thesis unfolding c by (simp add: search_empty_table)
qed

subsection \<open>Size and order of the search result\<close>

lemma take_mono_lex: "(xs :: string) \<le> ys \<Longrightarrow> take n xs \<le> take n ys"
proof (induction n arbitrary: xs ys)
  case 0
  then show ?case by simp
next
  case (Suc n)
  show ?case
  proof (cases xs)
    case Nil
    then show ?thesis by simp
  next
    case (Cons x xs')
    then obtain y ys' where ys: "ys = y # ys'" using Suc.prems by (cases ys) auto
    with Cons Suc.prems have "x < y \<or> (x = y \<and> xs' \<le> ys')" by simp
    then show ?thesis using Suc.IH Cons ys by auto
  qed
qed


lemma set_insert_desc: "set (insert_desc r xs) = insert r (set xs)"
  by (induction xs) auto

lemma sorted_insert_desc:
  "sorted_wrt (\<lambda>a b. publication_date b \<le> publication_date a) xs \<Longrightarrow>
   sorted_wrt (\<lambda>a b. publication_date b \<le> publication_date a) (insert_desc r xs)"
  by (induction xs) (auto simp: set_insert_desc)

lemma foldl_insert_desc:
  "sorted_wrt (\<lambda>a b. publication_date b \<le> publication_date a) acc \<Longrightarrow>
   sorted_wrt (\<lambda>a b. publication_date b \<le> publication_date a)
     (foldl (\<lambda>sorted r. insert_desc r sorted) acc rows) \<and>
   set (foldl (\<lambda>sorted r. insert_desc r sorted) acc rows) = set acc \<union> set rows"
  by (induction rows arbitrary: acc) (auto simp: sorted_insert_desc set_insert_desc)

lemma order_by_sorted:
  "sorted_wrt (\<lambda>a b. publication_date b \<le> publication_date a) (order_by_publication_date_desc rows)"
  and order_by_set: "set (order_by_publication_date_desc rows) = set rows"
  using foldl_insert_desc [of "[]" rows] by (simp_all add: order_by_publication_date_desc_def)

lemma fetch_documents_props:
  "length (fetch_documents rows s e kws) \<le> 10"
  "sorted_wrt (\<lambda>a b. publication_date b \<le> publication_date a) (fetch_documents rows s e kws)"
  "set (fetch_documents rows s e kws) \<subseteq> {r \<in> set rows. where_clause s e kws r}"
proof -
  show "length (fetch_documents rows s e kws) \<le> 10" by (simp add: fetch_documents_def)
  show "sorted_wrt (\<lambda>a b. publication_date b \<le> publication_date a) (fetch_documents rows s e kws)"
    unfolding fetch_documents_def by (rule sorted_wrt_take) (rule order_by_sorted)
  show "set (fetch_documents rows s e kws) \<subseteq> {r \<in> set rows. where_clause s e kws r}"
    unfolding fetch_documents_def using set_take_subset [of 10] order_by_set by fastforce
qed

lemma result_date_row_dict:
  "result_date (row_dict r) = takeWhile (\<lambda>c. c \<noteq> CHR '' '') (publication_date r)"
  by (simp add: result_date_def row_dict_def dict_get_def)


lemma search_documents_rows:
  "search_documents db today query_keywords date_range_str = Inr documents \<Longrightarrow>
   \<exists>start_date_str end_date_str keywords.
     documents = map row_dict (fetch_documents (table_rows db) start_date_str end_date_str keywords)"
  by (auto simp: search_documents_def table_rows_def
      split: if_splits option.splits database.splits prod.splits)

lemma pad_decimal_2: "pad_decimal 2 n = [digit_char (n div 10 mod 10), digit_char (n mod 10)]"
  by (simp add: numeral_2_eq_2)

lemma pad_decimal_4:
  "pad_decimal 4 n =
     [digit_char (n div 10 div 10 div 10 mod 10), digit_char (n div 10 div 10 mod 10),
      digit_char (n div 10 mod 10), digit_char (n mod 10)]"
proof -
  have four: "(4 :: nat) = Suc (Suc (Suc (Suc 0)))" by simp
  show ?thesis unfolding four by simp
qed

lemma strftime_examples:
  "strftime 739924 = ''2026-11-04''" "strftime 739918 = ''2026-10-29''"
  by (simp_all add: strftime_def ord2ymd_def Let_def DAYS_BEFORE_MONTH_def DAYS_IN_MONTH_def
      pad_decimal_2 pad_decimal_4 digit_char_def)

lemma example_search:
  "search_documents example_store 739924 JNull (JStr ''last_7_days'')
     = Inr [row_dict energy_order, row_dict climate_order]"
  by (simp add: search_documents_def example_store_def resolve_date_range_def minus_days_def
      keyword_argument_def strftime_examples fetch_documents_def where_clause_def date_filter_def
      order_by_publication_date_desc_def climate_order_def energy_order_def climate_rule_def)

text \<open>
  Claim C6. Whenever the search returns documents, there are at most 10 of them, and
  they are the rows of the query in its order: non-increasing in the stored
  publication date (the key of \<^verbatim>\<open>ORDER BY\<close>), hence also in its first ten characters
  (the date the query filters by). The \<^verbatim>\<open>publication_date\<close> fields of the result,
  cut at the first space, are non-increasing as well when every stored date is a
  ten-character date alone or followed by a space and a time. \<open>sorted_wrt\<close> says:
  for all positions \<open>i < j\<close>, the date at \<open>j\<close> is at most the date at \<open>i\<close>.
\<close>

theorem search_result_bounded_and_ordered:
  "search_documents db today query_keywords date_range_str = Inr documents \<Longrightarrow>
   length documents \<le> 10 \<and>
   (\<exists>rows. documents = map row_dict rows \<and> set rows \<subseteq> set (table_rows db) \<and>
      sorted_wrt (\<lambda>a b. publication_date b \<le> publication_date a) rows \<and>
      sorted_wrt (\<lambda>a b. take 10 (publication_date b) \<le> take 10 (publication_date a)) rows) \<and>
   ((\<forall>r \<in> set (table_rows db). date_then_time (publication_date r)) \<longrightarrow>
      sorted_wrt (\<lambda>a b. result_date b \<le> result_date a) documents)"
proof -
  assume "search_documents db today query_keywords date_range_str = Inr documents"
  then obtain s e kws
    where docs: "documents = map row_dict (fetch_documents (table_rows db) s e kws)"
    using search_documents_rows by blast
  let ?rows = "fetch_documents (table_rows db) s e kws"
  have len: "length documents \<le> 10"
    using docs fetch_documents_props(1) [of "table_rows db" s e kws] by simp
  have sub: "set ?rows \<subseteq> set (table_rows db)"
    using fetch_documents_props(3) [of "table_rows db" s e kws] by blast
  have key: "sorted_wrt (\<lambda>a b. publication_date b \<le> publication_date a) ?rows"
    by (rule fetch_documents_props(2))
  have pre: "sorted_wrt (\<lambda>a b. take 10 (publication_date b) \<le> take 10 (publication_date a)) ?rows"
    by (rule sorted_wrt_mono_rel [OF _ key]) (simp add: take_mono_lex)
  have cut: "sorted_wrt (\<lambda>a b. result_date b \<le> result_date a) documents"
    if wf: "\<forall>r \<in> set (table_rows db). date_then_time (publication_date r)"
  proof -
    have "sorted_wrt (\<lambda>a b. result_date (row_dict b) \<le> result_date (row_dict a)) ?rows"
    proof (rule sorted_wrt_mono_rel [OF _ pre])
      fix a b
      assume "a \<in> set ?rows" "b \<in> set ?rows"
        and "take 10 (publication_date b) \<le> take 10 (publication_date a)"
      then show "result_date (row_dict b) \<le> result_date (row_dict a)"
        using wf sub unfolding result_date_row_dict date_then_time_def by (metis subsetD)
    qed
    then show ?thesis by (simp add: docs sorted_wrt_map)
  qed
  show ?thesis using len docs sub key pre cut by blast
qed

theorem search_result_bounded_and_ordered_witness:
  "search_documents example_store 739924 JNull (JStr ''last_7_days'')
     = Inr [row_dict energy_order, row_dict climate_order] \<and>
   table_rows example_store = [climate_order, energy_order, climate_rule] \<and>
   date_then_time (publication_date climate_order) \<and>
   date_then_time (publication_date energy_order) \<and>
   date_then_time (publication_date climate_rule) \<and>
   length [row_dict energy_order, row_dict climate_order] \<le> 10 \<and>
   sorted_wrt (\<lambda>a b. result_date b \<le> result_date a)
     [row_dict energy_order, row_dict climate_order] \<and>
   result_date (row_dict energy_order) = ''2026-11-03'' \<and>
   result_date (row_dict climate_order) = ''2026-11-01''"
proof -
  have wf: "\<forall>r \<in> set (table_rows example_store). date_then_time (publication_date r)"
    by (simp add: table_rows_def example_store_def date_then_time_def
        climate_order_def energy_order_def climate_rule_def)
  have d: "result_date (row_dict energy_order) = ''2026-11-03''"
    "result_date (row_dict climate_order) = ''2026-11-01''"
    by (simp_all add: result_date_row_dict climate_order_def energy_order_def)
  have t: "table_rows example_store = [climate_order, energy_order, climate_rule]"
    by (simp add: table_rows_def example_store_def)
  show ?thesis
    using search_result_bounded_and_ordered [OF example_search] wf d example_search t by simp
qed

subsection \<open>The keyword filter\<close>




















end
